theory Spec2Isabelle
  imports Complex_Main "HOL-Library.Word" "HOL-Library.Sublist"
begin

section \<open>JavaScript strings\<close>

text \<open>
  The route handler \<^verbatim>\<open>app/api/generate-design/route.ts\<close> works on JavaScript strings,
  which are sequences of 16-bit code units: \<^verbatim>\<open>length\<close>, \<^verbatim>\<open>trim\<close> and
  \<^verbatim>\<open>includes\<close> all count and compare code units. A string of the program is
  therefore a list of 16-bit words. The string literals of the source are ASCII; \<open>lit\<close>
  turns the literal as it is written into its code units.
\<close>

type_synonym jsstring = "16 word list"

definition codeUnit :: "char \<Rightarrow> 16 word" where
  "codeUnit c = of_nat (of_char c)"

definition lit :: "string \<Rightarrow> jsstring" where
  "lit s = map codeUnit s"

text \<open>
  \<^verbatim>\<open>s.includes(t)\<close>: true when \<open>t\<close> occurs in \<open>s\<close> as a run of consecutive code
  units, at any position; the empty string occurs in every string.
\<close>

fun includesStr :: "'a list \<Rightarrow> 'a list \<Rightarrow> bool" where
  "includesStr [] t = (t = [])"
| "includesStr (x # xs) t = (prefix t (x # xs) \<or> includesStr xs t)"

text \<open>
  \<^verbatim>\<open>s.trim()\<close> removes the leading and the trailing run of white space and line
  terminators. The code units that count are those of ECMAScript's WhiteSpace and
  LineTerminator productions: TAB, LF, VT, FF, CR, SPACE, NO-BREAK SPACE, U+1680,
  U+2000 to U+200A, U+2028, U+2029, U+202F, U+205F, U+3000 and U+FEFF.
\<close>

definition isWhiteSpace :: "16 word \<Rightarrow> bool" where
  "isWhiteSpace c \<longleftrightarrow>
     c = 0x0009 \<or> c = 0x000A \<or> c = 0x000B \<or> c = 0x000C \<or> c = 0x000D \<or> c = 0x0020 \<or>
     c = 0x00A0 \<or> c = 0x1680 \<or> (0x2000 \<le> c \<and> c \<le> 0x200A) \<or> c = 0x2028 \<or>
     c = 0x2029 \<or> c = 0x202F \<or> c = 0x205F \<or> c = 0x3000 \<or> c = 0xFEFF"

definition trim :: "jsstring \<Rightarrow> jsstring" where
  "trim s = rev (dropWhile isWhiteSpace (rev (dropWhile isWhiteSpace s)))"

section \<open>The prompt builder\<close>

text \<open>
  \<^verbatim>\<open>createPromptWithReference(description, hasReferenceImage)\<close> fills a template
  literal. The three pieces of the template are kept apart here, each with the line
  breaks and the indentation that the template literal has in the source: the base
  sentence around the description, the block appended when there is a reference image,
  and the photography block appended always.
\<close>

definition basePrefix :: jsstring where
  "basePrefix = lit ''Create a new clothing item based on this description: ''"

definition referenceBlock :: jsstring where
  "referenceBlock = lit
     (''\<newline>    Use the reference image as inspiration for:'' @
      ''\<newline>    - Overall style and aesthetic'' @
      ''\<newline>    - Similar silhouette and proportions'' @
      ''\<newline>    - Comparable fabric texture and draping'' @
      ''\<newline>    - Related design elements and details'' @
      ''\<newline>    - Similar photography style'' @
      ''\<newline>'' @
      ''\<newline>    However, create a unique piece that combines these elements with the specific requirements from the description.'' @
      ''\<newline>    '')"

definition photographyBlock :: jsstring where
  "photographyBlock = lit
     (''\<newline>  Present the final design as a professional product photograph:'' @
      ''\<newline>  - Clean white or light gray background'' @
      ''\<newline>  - Studio-quality lighting to highlight fabric texture and details'' @
      ''\<newline>  - Sharp, clear, high-resolution image'' @
      ''\<newline>  - Professional fashion photography style'' @
      ''\<newline>  - Multiple angles if possible'' @
      ''\<newline>  - Photorealistic rendering'' @
      ''\<newline>  - HD quality'' @
      ''\<newline>  The final image should look like a high-end fashion e-commerce product photo.'')"

definition createPromptWithReference :: "jsstring \<Rightarrow> bool \<Rightarrow> jsstring" where
  "createPromptWithReference description hasReferenceImage =
     (let prompt = basePrefix @ description @ lit ''.'';
          prompt = (if hasReferenceImage then prompt @ referenceBlock else prompt);
          prompt = prompt @ photographyBlock
      in prompt)"

section \<open>Values that the handler receives\<close>

text \<open>
  \<^verbatim>\<open>await req.json()\<close> yields any JSON value: the TypeScript type
  \<^verbatim>\<open>SubmitDesignData\<close> is erased at run time. A number is the value it denotes; an
  object is the list of its own properties, each key once. A property that is not there
  reads as \<^verbatim>\<open>undefined\<close>, which is \<open>None\<close> here.
\<close>

datatype json =
    JNull
  | JBool bool
  | JNum real
  | JStr jsstring
  | JArr "json list"
  | JObj "(jsstring \<times> json) list"

text \<open>
  What \<^verbatim>\<open>!!v\<close> gives, and what \<^verbatim>\<open>!v\<close> negates: \<^verbatim>\<open>undefined\<close>, \<^verbatim>\<open>null\<close>,
  \<^verbatim>\<open>false\<close>, zero and the empty string are falsy, every other value is truthy.
\<close>

fun truthy :: "json option \<Rightarrow> bool" where
  "truthy None = False"
| "truthy (Some JNull) = False"
| "truthy (Some (JBool b)) = b"
| "truthy (Some (JNum x)) = (x \<noteq> 0)"
| "truthy (Some (JStr s)) = (s \<noteq> [])"
| "truthy (Some (JArr vs)) = True"
| "truthy (Some (JObj kvs)) = True"

text \<open>
  \<^verbatim>\<open>const { description, referenceImage } = body\<close>. Destructuring \<^verbatim>\<open>null\<close> raises a
  TypeError (\<open>None\<close>); an object gives its two properties; a boolean, a number, a
  string or an array has neither property, so both names are \<^verbatim>\<open>undefined\<close>.
\<close>

fun destructure :: "json \<Rightarrow> (json option \<times> json option) option" where
  "destructure JNull = None"
| "destructure (JObj kvs) =
     Some (map_of kvs (lit ''description''), map_of kvs (lit ''referenceImage''))"
| "destructure (JBool b) = Some (None, None)"
| "destructure (JNum x) = Some (None, None)"
| "destructure (JStr s) = Some (None, None)"
| "destructure (JArr vs) = Some (None, None)"

text \<open>The environment of the process: \<^verbatim>\<open>process.env['OPENAI_API_KEY']\<close>, a string or undefined.\<close>

record env =
  OPENAI_API_KEY :: "jsstring option"

text \<open>
  A value that a rejected promise or a \<^verbatim>\<open>throw\<close> carries: an instance of
  \<^verbatim>\<open>Error\<close> with its message, or any other value.
\<close>

datatype thrown =
    ErrorInstance jsstring
  | OtherValue json

text \<open>The TypeError that the engine raises inside the outer \<^verbatim>\<open>try\<close>.\<close>

datatype uncaught = TypeError

section \<open>The image provider\<close>

text \<open>\<^verbatim>\<open>Design\<close> of \<^verbatim>\<open>app/lib/types.ts\<close>, and the response of \<^verbatim>\<open>openai.images.generate\<close>,
  whose \<^verbatim>\<open>data\<close> field may be missing.\<close>

record design =
  url :: jsstring
  revised_prompt :: "jsstring option"

record images_response =
  data :: "design list option"

record generate_params =
  gen_model :: jsstring
  gen_prompt :: jsstring
  gen_n :: nat
  gen_size :: jsstring
  gen_quality :: jsstring
  gen_style :: jsstring

text \<open>The provider is outside the program: any function from the parameters of the call
  to a response or to a rejection.\<close>

type_synonym provider = "generate_params \<Rightarrow> thrown + images_response"

definition generateParams :: "jsstring \<Rightarrow> generate_params" where
  "generateParams prompt =
     \<lparr>gen_model = lit ''dall-e-3'', gen_prompt = prompt, gen_n = 1,
      gen_size = lit ''1024x1024'', gen_quality = lit ''hd'', gen_style = lit ''natural''\<rparr>"

text \<open>A provider for the examples: it answers every call with the same outcome.\<close>

definition constantProvider :: "thrown + images_response \<Rightarrow> provider" where
  "constantProvider outcome = (\<lambda>params. outcome)"

section \<open>Responses and effects\<close>

text \<open>\<^verbatim>\<open>NextResponse.json(payload, { status })\<close>: the status and the JSON payload, which is
  \<^verbatim>\<open>{ error }\<close> or \<^verbatim>\<open>{ designs }\<close>. Without a status the response is a 200.\<close>

datatype response_json =
    ErrorBody jsstring
  | DesignsBody "design list"

record http_response =
  status :: nat
  json_body :: response_json

definition jsonResponse :: "nat \<Rightarrow> response_json \<Rightarrow> http_response" where
  "jsonResponse st payload = \<lparr>status = st, json_body = payload\<rparr>"

text \<open>
  What the handler does besides returning: it writes to the console (the event keeps the
  fixed first argument of the call, not the value logged after it), reads the body of
  the request, calls the prompt builder and calls the provider. The handler returns its
  response together with the events in the order in which they happen.
\<close>

datatype event =
    ConsoleError string
  | ConsoleLog string
  | ReqJson
  | PromptBuilder jsstring bool
  | ImagesGenerate generate_params

fun isReqJson :: "event \<Rightarrow> bool" where
  "isReqJson ReqJson = True"
| "isReqJson (ConsoleError l) = False"
| "isReqJson (ConsoleLog l) = False"
| "isReqJson (PromptBuilder d h) = False"
| "isReqJson (ImagesGenerate p) = False"

fun isPromptBuilder :: "event \<Rightarrow> bool" where
  "isPromptBuilder (PromptBuilder d h) = True"
| "isPromptBuilder (ConsoleError l) = False"
| "isPromptBuilder (ConsoleLog l) = False"
| "isPromptBuilder ReqJson = False"
| "isPromptBuilder (ImagesGenerate p) = False"

fun isImagesGenerate :: "event \<Rightarrow> bool" where
  "isImagesGenerate (ImagesGenerate p) = True"
| "isImagesGenerate (ConsoleError l) = False"
| "isImagesGenerate (ConsoleLog l) = False"
| "isImagesGenerate ReqJson = False"
| "isImagesGenerate (PromptBuilder d h) = False"

definition bodyRead :: "event list \<Rightarrow> bool" where
  "bodyRead tr = list_ex isReqJson tr"

definition promptBuilderInvoked :: "event list \<Rightarrow> bool" where
  "promptBuilderInvoked tr = list_ex isPromptBuilder tr"

definition providerInvoked :: "event list \<Rightarrow> bool" where
  "providerInvoked tr = list_ex isImagesGenerate tr"

text \<open>The prompts that reach the provider, in order.\<close>

fun sentPrompts :: "event list \<Rightarrow> jsstring list" where
  "sentPrompts [] = []"
| "sentPrompts (ImagesGenerate p # tr) = gen_prompt p # sentPrompts tr"
| "sentPrompts (ConsoleError l # tr) = sentPrompts tr"
| "sentPrompts (ConsoleLog l # tr) = sentPrompts tr"
| "sentPrompts (ReqJson # tr) = sentPrompts tr"
| "sentPrompts (PromptBuilder d h # tr) = sentPrompts tr"

section \<open>The handler\<close>

text \<open>
  The \<^verbatim>\<open>catch (openaiError)\<close> block after its \<^verbatim>\<open>console.error\<close>: the message is read
  only of an instance of \<^verbatim>\<open>Error\<close>, the rate limit is looked for first, the content
  policy second, and everything else gets the general answer.
\<close>

definition catchOpenaiError :: "thrown \<Rightarrow> http_response" where
  "catchOpenaiError openaiError =
     (case openaiError of
        ErrorInstance message \<Rightarrow>
          if includesStr message (lit ''rate limit'') then
            jsonResponse 429 (ErrorBody (lit ''Rate limit exceeded. Please try again later.''))
          else if includesStr message (lit ''content policy'') then
            jsonResponse 400
              (ErrorBody (lit ''Content policy violation. Please modify your request.''))
          else jsonResponse 500 (ErrorBody (lit ''Error generating image with OpenAI''))
      | OtherValue v \<Rightarrow>
          jsonResponse 500 (ErrorBody (lit ''Error generating image with OpenAI'')))"

text \<open>
  The body of the inner \<^verbatim>\<open>try\<close>: the call of the provider, the log of its response,
  the \<^verbatim>\<open>throw new Error('No images generated')\<close> when \<^verbatim>\<open>data\<close> is missing or empty,
  and the 200 response otherwise. \<open>Inl\<close> is what the \<^verbatim>\<open>catch\<close> receives.
\<close>

definition tryGenerate :: "provider \<Rightarrow> jsstring \<Rightarrow> (thrown + http_response) \<times> event list" where
  "tryGenerate openai prompt =
     (case openai (generateParams prompt) of
        Inl rejection \<Rightarrow> (Inl rejection, [ImagesGenerate (generateParams prompt)])
      | Inr response \<Rightarrow>
          (case data response of
             None \<Rightarrow> Inl (ErrorInstance (lit ''No images generated''))
           | Some designs \<Rightarrow>
               if length designs = 0 then Inl (ErrorInstance (lit ''No images generated''))
               else Inr (jsonResponse 200 (DesignsBody designs)),
           [ImagesGenerate (generateParams prompt), ConsoleLog ''OpenAI API Response:'']))"

text \<open>The inner \<^verbatim>\<open>try\<close> with its \<^verbatim>\<open>catch\<close>.\<close>

definition generateDesigns :: "provider \<Rightarrow> jsstring \<Rightarrow> http_response \<times> event list" where
  "generateDesigns openai prompt =
     (case tryGenerate openai prompt of
        (Inr response, tr) \<Rightarrow> (response, tr)
      | (Inl openaiError, tr) \<Rightarrow>
          (catchOpenaiError openaiError, tr @ [ConsoleError ''OpenAI API Error:'']))"

text \<open>
  The body of the outer \<^verbatim>\<open>try\<close>. The argument \<open>req\<close> is what awaiting
  \<^verbatim>\<open>req.json()\<close> gives: a rejection or the parsed body. \<^verbatim>\<open>description.trim()\<close> is
  reached only for a truthy description, and raises a TypeError unless the description
  is a string, since no other JSON value has a callable \<^verbatim>\<open>trim\<close>.
\<close>

definition tryPOST :: "thrown + json \<Rightarrow> provider \<Rightarrow> (uncaught + http_response) \<times> event list" where
  "tryPOST req openai =
     (case req of
        Inl e \<Rightarrow>
          (Inr (jsonResponse 400 (ErrorBody (lit ''Invalid request body''))),
           [ReqJson, ConsoleError ''Error parsing request body:''])
      | Inr body \<Rightarrow>
          (case destructure body of
             None \<Rightarrow> (Inl TypeError, [ReqJson])
           | Some (description, referenceImage) \<Rightarrow>
               if \<not> truthy description then
                 (Inr (jsonResponse 400 (ErrorBody (lit ''Description is required''))), [ReqJson])
               else
                 (case description of
                    Some (JStr d) \<Rightarrow>
                      if length (trim d) = 0 then
                        (Inr (jsonResponse 400 (ErrorBody (lit ''Description is required''))),
                         [ReqJson])
                      else
                        (let prompt = createPromptWithReference d (truthy referenceImage);
                             (response, tr) = generateDesigns openai prompt
                         in (Inr response,
                             [ReqJson, PromptBuilder d (truthy referenceImage),
                              ConsoleLog ''Sending prompt to OpenAI:''] @ tr))
                  | _ \<Rightarrow> (Inl TypeError, [ReqJson]))))"

text \<open>
  \<^verbatim>\<open>POST\<close>: the check of the credential (an undefined or empty key is falsy), then the
  outer \<^verbatim>\<open>try\<close>, whose \<^verbatim>\<open>catch\<close> answers every exception that escapes with a 500.
\<close>

definition POST :: "env \<Rightarrow> thrown + json \<Rightarrow> provider \<Rightarrow> http_response \<times> event list" where
  "POST e req openai =
     (if \<not> truthy (map_option JStr (OPENAI_API_KEY e)) then
        (jsonResponse 500 (ErrorBody (lit ''OpenAI API key not configured in Replit secrets'')),
         [ConsoleError ''OpenAI API key is missing from environment variables''])
      else
        (case tryPOST req openai of
           (Inr response, tr) \<Rightarrow> (response, tr)
         | (Inl TypeError, tr) \<Rightarrow>
             (jsonResponse 500 (ErrorBody (lit ''An unexpected error occurred'')),
              tr @ [ConsoleError ''Unexpected error:''])))"

section \<open>Facts about strings\<close>

lemma includes_sublist: "includesStr s t \<longleftrightarrow> sublist t s"
  by (induction s) (auto simp: sublist_Cons_right)

lemma includes_self_inside: "includesStr (ps @ t @ ss) t"
  by (simp add: includes_sublist)

lemma unat_codeUnit: "unat (codeUnit c) = of_char c"
proof -
  have "(of_char c :: nat) < 256" by simp
  also have "(256 :: nat) < 2 ^ LENGTH(16)" by simp
  finally show ?thesis
    unfolding codeUnit_def by (simp add: unat_of_nat)
qed

lemma codeUnit_inject: "codeUnit c = codeUnit d \<longleftrightarrow> c = d"
proof
  assume "codeUnit c = codeUnit d"
  then have "unat (codeUnit c) = unat (codeUnit d)" by simp
  then have "(of_char c :: nat) = of_char d" by (simp only: unat_codeUnit)
  then show "c = d" by simp
qed simp

lemma inj_codeUnit: "inj codeUnit"
  by (rule injI) (simp add: codeUnit_inject)

lemma lit_append: "lit (a @ b) = lit a @ lit b"
  by (simp add: lit_def)

lemma lit_eq_Nil: "lit s = [] \<longleftrightarrow> s = []"
  by (simp add: lit_def)

lemma codeUnit_in_lit: "codeUnit c \<in> set (lit s) \<longleftrightarrow> c \<in> set s"
  unfolding lit_def by (simp add: inj_image_mem_iff [OF inj_codeUnit])

lemma prefix_lit: "prefix (lit a) (lit b) \<longleftrightarrow> prefix a b"
proof
  assume "prefix (lit a) (lit b)"
  then obtain a' where a': "prefix a' b" "map codeUnit a = map codeUnit a'"
    unfolding lit_def by (blast dest: prefix_map_rightE)
  from a'(2) have "a = a'" by (simp add: inj_codeUnit)
  with a'(1) show "prefix a b" by simp
next
  assume "prefix a b"
  then show "prefix (lit a) (lit b)" unfolding lit_def by (rule map_mono_prefix)
qed

lemma sublist_between:
  assumes sub: "sublist blk (base @ d @ rest)"
    and ne: "blk \<noteq> []"
    and c: "hd blk \<notin> set base"
    and rest: "\<not> sublist blk rest"
    and split: "\<And>b1 b2. blk = b1 @ b2 \<Longrightarrow> b2 \<noteq> [] \<Longrightarrow> \<not> prefix b2 rest"
  shows "sublist blk d"
proof -
  from ne have hd_in: "hd blk \<in> set blk" by simp
  have nb: "\<not> sublist blk base"
    using c hd_in by (auto dest: set_mono_sublist)
  have "sublist blk (d @ rest)"
  proof -
    from sub nb consider "sublist blk (d @ rest)"
      | b1 b2 where "blk = b1 @ b2" "suffix b1 base" "prefix b2 (d @ rest)"
      by (auto simp: sublist_append)
    then show ?thesis
    proof cases
      case 1 then show ?thesis .
    next
      case 2
      show ?thesis
      proof (cases b1)
        case Nil with 2 show ?thesis by auto
      next
        case (Cons x xs)
        with 2(1) have "x = hd blk" by simp
        moreover from 2(2) Cons have "x \<in> set base" by (auto simp: suffix_def)
        ultimately show ?thesis using c by simp
      qed
    qed
  qed
  with rest consider "sublist blk d"
    | b1 b2 where "blk = b1 @ b2" "suffix b1 d" "prefix b2 rest"
    by (auto simp: sublist_append)
  then show ?thesis
  proof cases
    case 1 then show ?thesis .
  next
    case 2
    show ?thesis
    proof (cases "b2 = []")
      case True with 2 show ?thesis by auto
    next
      case False with 2 split show ?thesis by blast
    qed
  qed
qed

lemma suffix_after_last:
  assumes eq: "b0 @ e # es = b1 @ b2" and ne: "b2 \<noteq> []" and hd: "hd b2 = e"
    and e0: "e \<notin> set b0" and es: "e \<notin> set es"
  shows "b2 = e # es"
proof -
  from eq obtain us where "(b0 = b1 @ us \<and> us @ e # es = b2) \<or> (b0 @ us = b1 \<and> e # es = us @ b2)"
    by (auto simp: append_eq_append_conv2)
  then show ?thesis
  proof
    assume a: "b0 = b1 @ us \<and> us @ e # es = b2"
    show ?thesis
    proof (cases us)
      case Nil with a show ?thesis by simp
    next
      case (Cons u us')
      with a have "b2 = u # us' @ e # es" by simp
      then have "hd b2 = u" by simp
      with hd have "u = e" by simp
      with a Cons e0 show ?thesis by auto
    qed
  next
    assume a: "b0 @ us = b1 \<and> e # es = us @ b2"
    show ?thesis
    proof (cases us)
      case Nil with a show ?thesis by simp
    next
      case (Cons u us')
      with a have "es = us' @ b2" by simp
      with ne hd have "e \<in> set es" by (cases b2) auto
      with es show ?thesis by simp
    qed
  qed
qed

lemma prompt_shape:
  "createPromptWithReference d False = basePrefix @ d @ (lit ''.'' @ photographyBlock)"
  "createPromptWithReference d True =
     basePrefix @ d @ (lit ''.'' @ referenceBlock @ photographyBlock)"
  by (simp_all add: createPromptWithReference_def)

lemma referenceBlock_split:
  "\<exists>h. referenceBlock = lit h @ codeUnit CHR ''.'' # lit ''\<newline>    '' \<and>
       codeUnit CHR ''.'' \<notin> set (lit h)"
proof (intro exI conjI)
  show "referenceBlock = lit
    (''\<newline>    Use the reference image as inspiration for:'' @
     ''\<newline>    - Overall style and aesthetic'' @
     ''\<newline>    - Similar silhouette and proportions'' @
     ''\<newline>    - Comparable fabric texture and draping'' @
     ''\<newline>    - Related design elements and details'' @
     ''\<newline>    - Similar photography style'' @
     ''\<newline>'' @
     ''\<newline>    However, create a unique piece that combines these elements with the specific requirements from the description'') @ codeUnit CHR ''.'' # lit ''\<newline>    ''"
    by (simp add: referenceBlock_def lit_def)
  show "codeUnit CHR ''.'' \<notin> set (lit
    (''\<newline>    Use the reference image as inspiration for:'' @
     ''\<newline>    - Overall style and aesthetic'' @
     ''\<newline>    - Similar silhouette and proportions'' @
     ''\<newline>    - Comparable fabric texture and draping'' @
     ''\<newline>    - Related design elements and details'' @
     ''\<newline>    - Similar photography style'' @
     ''\<newline>'' @
     ''\<newline>    However, create a unique piece that combines these elements with the specific requirements from the description''))"
    unfolding codeUnit_in_lit by simp
qed

lemma referenceBlock_hd:
  "referenceBlock \<noteq> [] \<and> hd referenceBlock = codeUnit CHR ''\<newline>''"
  by (simp add: referenceBlock_def lit_def)

lemma newline_not_in_basePrefix: "codeUnit CHR ''\<newline>'' \<notin> set basePrefix"
  unfolding basePrefix_def codeUnit_in_lit by simp

lemma stop_not_in_indent: "codeUnit CHR ''.'' \<notin> set (lit ''\<newline>    '')"
  unfolding codeUnit_in_lit by simp

lemma U_in_referenceBlock: "codeUnit CHR ''U'' \<in> set referenceBlock"
  unfolding referenceBlock_def codeUnit_in_lit by simp

lemma U_not_in_photographyBlock: "codeUnit CHR ''U'' \<notin> set (lit ''.'' @ photographyBlock)"
  unfolding photographyBlock_def lit_append [symmetric] codeUnit_in_lit by simp

lemma referenceBlock_not_in_rest: "\<not> sublist referenceBlock (lit ''.'' @ photographyBlock)"
  using U_in_referenceBlock U_not_in_photographyBlock by (blast dest: set_mono_sublist)

lemma referenceBlock_no_overlap:
  assumes "referenceBlock = b1 @ b2" "b2 \<noteq> []"
  shows "\<not> prefix b2 (lit ''.'' @ photographyBlock)"
proof
  assume p: "prefix b2 (lit ''.'' @ photographyBlock)"
  with assms(2) have "hd b2 = codeUnit CHR ''.''"
    by (cases b2) (auto simp: lit_def)
  moreover obtain h where h: "referenceBlock = lit h @ codeUnit CHR ''.'' # lit ''\<newline>    ''"
    "codeUnit CHR ''.'' \<notin> set (lit h)"
    using referenceBlock_split by blast
  moreover from assms(1) h(1)
  have "lit h @ codeUnit CHR ''.'' # lit ''\<newline>    '' = b1 @ b2"
    by simp
  ultimately have "b2 = codeUnit CHR ''.'' # lit ''\<newline>    ''"
    using assms(2) stop_not_in_indent
    by (intro suffix_after_last [of "lit h" _ _ b1])
  then have "b2 = lit ''.\<newline>    ''" by (simp add: lit_def)
  with p show False
    by (simp add: photographyBlock_def lit_def codeUnit_inject)
qed

lemma plain_prompt_includes_block:
  "includesStr (createPromptWithReference d False) referenceBlock \<longleftrightarrow> includesStr d referenceBlock"
proof
  assume "includesStr (createPromptWithReference d False) referenceBlock"
  then have "sublist referenceBlock (basePrefix @ d @ (lit ''.'' @ photographyBlock))"
    by (simp add: includes_sublist prompt_shape)
  then have "sublist referenceBlock d"
  proof (rule sublist_between)
    show "referenceBlock \<noteq> []" by (simp add: referenceBlock_hd)
    show "hd referenceBlock \<notin> set basePrefix"
      by (simp add: referenceBlock_hd newline_not_in_basePrefix)
    show "\<not> sublist referenceBlock (lit ''.'' @ photographyBlock)"
      by (rule referenceBlock_not_in_rest)
    show "\<not> prefix b2 (lit ''.'' @ photographyBlock)"
      if "referenceBlock = b1 @ b2" "b2 \<noteq> []" for b1 b2
      using that by (rule referenceBlock_no_overlap)
  qed
  then show "includesStr d referenceBlock"
    by (simp only: includes_sublist)
next
  assume "includesStr d referenceBlock"
  then have "sublist referenceBlock d" by (simp only: includes_sublist)
  then have "sublist referenceBlock (basePrefix @ d @ (lit ''.'' @ photographyBlock))"
    by (auto simp: sublist_append)
  then show "includesStr (createPromptWithReference d False) referenceBlock"
    by (simp add: includes_sublist prompt_shape)
qed

section \<open>Facts about the handler\<close>

lemma lit_inject: "lit a = lit b \<longleftrightarrow> a = b"
  unfolding lit_def by (simp add: inj_codeUnit)

lemma trim_empty_iff: "length (trim s) = 0 \<longleftrightarrow> (\<forall>c \<in> set s. isWhiteSpace c)"
proof -
  have "(\<forall>x \<in> set (dropWhile isWhiteSpace s). isWhiteSpace x) \<longleftrightarrow>
        dropWhile isWhiteSpace s = []"
  proof
    assume all: "\<forall>x \<in> set (dropWhile isWhiteSpace s). isWhiteSpace x"
    show "dropWhile isWhiteSpace s = []"
    proof (rule ccontr)
      assume ne: "dropWhile isWhiteSpace s \<noteq> []"
      then have "\<not> isWhiteSpace (hd (dropWhile isWhiteSpace s))" by (rule hd_dropWhile)
      moreover from ne have "hd (dropWhile isWhiteSpace s) \<in> set (dropWhile isWhiteSpace s)"
        by simp
      ultimately show False using all by blast
    qed
  next
    assume e: "dropWhile isWhiteSpace s = []"
    show "\<forall>x \<in> set (dropWhile isWhiteSpace s). isWhiteSpace x"
      unfolding e by simp
  qed
  then show ?thesis by (simp add: trim_def dropWhile_eq_Nil_conv)
qed

lemma POST_configured:
  assumes "OPENAI_API_KEY e = Some k" "k \<noteq> []"
  shows "POST e req openai =
     (case tryPOST req openai of
           (Inr response, tr) \<Rightarrow> (response, tr)
         | (Inl TypeError, tr) \<Rightarrow>
             (jsonResponse 500 (ErrorBody (lit ''An unexpected error occurred'')),
              tr @ [ConsoleError ''Unexpected error:'']))"
  using assms by (simp add: POST_def)

lemma tryPOST_valid:
  assumes "destructure body = Some (Some (JStr d), r)" "trim d \<noteq> []"
  shows "tryPOST (Inr body) openai =
     (Inr (fst (generateDesigns openai (createPromptWithReference d (truthy r)))),
      [ReqJson, PromptBuilder d (truthy r), ConsoleLog ''Sending prompt to OpenAI:''] @
      snd (generateDesigns openai (createPromptWithReference d (truthy r))))"
proof -
  from assms(2) have "d \<noteq> []" by (auto simp: trim_def)
  moreover from assms(2) have "length (trim d) \<noteq> 0" by simp
  ultimately show ?thesis using assms(1)
    by (simp add: tryPOST_def Let_def split: prod.splits)
qed

lemma POST_valid:
  assumes "OPENAI_API_KEY e = Some k" "k \<noteq> []"
    and "destructure body = Some (Some (JStr d), r)" "trim d \<noteq> []"
  shows "POST e (Inr body) openai =
     (fst (generateDesigns openai (createPromptWithReference d (truthy r))),
      [ReqJson, PromptBuilder d (truthy r), ConsoleLog ''Sending prompt to OpenAI:''] @
      snd (generateDesigns openai (createPromptWithReference d (truthy r))))"
  by (simp add: POST_configured [OF assms(1,2)] tryPOST_valid [OF assms(3,4)])

lemma generateDesigns_events:
  "filter isPromptBuilder (snd (generateDesigns openai p)) = []"
  "sentPrompts (snd (generateDesigns openai p)) = [p]"
  by (auto simp: generateDesigns_def tryGenerate_def generateParams_def split: sum.splits option.splits)

lemma no_images_message:
  "\<not> includesStr (lit ''No images generated'') (lit ''rate limit'')"
  "\<not> includesStr (lit ''No images generated'') (lit ''content policy'')"
  by (simp_all add: lit_def codeUnit_inject)

lemma generateDesigns_empty:
  assumes "openai (generateParams p) = Inr response" "data response = None \<or> data response = Some []"
  shows "generateDesigns openai p = (jsonResponse 500 (ErrorBody (lit ''Error generating image with OpenAI'')),
     [ImagesGenerate (generateParams p), ConsoleLog ''OpenAI API Response:'', ConsoleError ''OpenAI API Error:''])"
  using assms no_images_message
  by (auto simp: generateDesigns_def tryGenerate_def catchOpenaiError_def)

lemma generateDesigns_rejected:
  assumes "openai (generateParams p) = Inl x"
  shows "generateDesigns openai p =
     (catchOpenaiError x, [ImagesGenerate (generateParams p), ConsoleError ''OpenAI API Error:''])"
  using assms by (simp add: generateDesigns_def tryGenerate_def)

lemma example_body:
  "destructure (JObj [(lit ''description'', JStr (lit ''a red dress'')), (lit ''referenceImage'', v)]) =
     Some (Some (JStr (lit ''a red dress'')), Some v)"
  "trim (lit ''a red dress'') \<noteq> []"
  by (simp_all add: lit_inject trim_def lit_def isWhiteSpace_def codeUnit_def)

section \<open>Properties of the prompt builder\<close>

text \<open>
  C6. For every description \<open>d\<close> (non-empty or not) and every flag, the prompt that
  the builder returns contains \<open>d\<close> unchanged, as a run of consecutive code units.
\<close>

theorem prompt_includes_description:
  "includesStr (createPromptWithReference d hasRef) d"
  by (cases hasRef) (simp_all only: prompt_shape includes_self_inside)

text \<open>
  C8. The builder is a total function of its two arguments, it reads and writes
  nothing else, and its result is never the empty string, whatever the description,
  the empty one included: the result is strictly longer than the description.
\<close>

theorem prompt_never_empty:
  "createPromptWithReference d hasRef \<noteq> [] \<and>
   length d < length (createPromptWithReference d hasRef)"
  by (simp add: createPromptWithReference_def Let_def basePrefix_def lit_def)

text \<open>
  C7, as the code has it. With the flag set, the prompt contains the reference block,
  whatever the description. With the flag not set, the prompt contains the block exactly
  when the description itself contains it: the builder never adds it, and never hides a
  copy that the caller wrote into the description.
\<close>

theorem reference_block_only_with_flag:
  "includesStr (createPromptWithReference d True) referenceBlock \<and>
   (includesStr (createPromptWithReference d False) referenceBlock \<longleftrightarrow>
      includesStr d referenceBlock)"
proof
  have "createPromptWithReference d True =
          (basePrefix @ d @ lit ''.'') @ referenceBlock @ photographyBlock"
    by (simp add: prompt_shape)
  then show "includesStr (createPromptWithReference d True) referenceBlock"
    by (simp only: includes_self_inside)
  show "includesStr (createPromptWithReference d False) referenceBlock \<longleftrightarrow>
      includesStr d referenceBlock"
    by (rule plain_prompt_includes_block)
qed

text \<open>
  C7 as stated fails: a description that is the reference block itself gives, with the
  flag not set, a prompt that contains the block.
\<close>

theorem reference_block_without_flag_counterexample:
  "includesStr (createPromptWithReference referenceBlock False) referenceBlock"
  by (simp only: prompt_shape includes_self_inside)

section \<open>Properties of the handler\<close>

text \<open>
  C1, as the code has it. When the credential is there, the body parses, the description
  is a string that is not blank, and the provider answers with no \<^verbatim>\<open>data\<close> or an empty
  list, the inner \<^verbatim>\<open>try\<close> throws an error with the message "No images generated";
  the \<^verbatim>\<open>catch\<close> around it logs that error and answers the caller with status 500 and
  the general message "Error generating image with OpenAI".
\<close>

theorem zero_results_general_error:
  assumes "OPENAI_API_KEY e = Some k" and "k \<noteq> []"
    and "destructure body = Some (Some (JStr d), r)" and "trim d \<noteq> []"
    and "openai (generateParams (createPromptWithReference d (truthy r))) = Inr response"
    and "data response = None \<or> data response = Some []"
  shows "fst (tryGenerate openai (createPromptWithReference d (truthy r))) =
           Inl (ErrorInstance (lit ''No images generated'')) \<and>
         fst (POST e (Inr body) openai) =
           jsonResponse 500 (ErrorBody (lit ''Error generating image with OpenAI''))"
proof
  from assms(5,6)
  show "fst (tryGenerate openai (createPromptWithReference d (truthy r))) =
           Inl (ErrorInstance (lit ''No images generated''))"
    by (auto simp: tryGenerate_def)
  show "fst (POST e (Inr body) openai) =
           jsonResponse 500 (ErrorBody (lit ''Error generating image with OpenAI''))"
    by (simp add: POST_valid [OF assms(1-4)] generateDesigns_empty [of openai _ response, OF assms(5,6)])
qed

text \<open>
  An instance: the provider answers with an empty list.
\<close>

theorem zero_results_general_error_witness:
  "OPENAI_API_KEY \<lparr>OPENAI_API_KEY = Some (lit ''sk-test'')\<rparr> = Some (lit ''sk-test'') \<and> lit ''sk-test'' \<noteq> [] \<and>
   destructure (JObj [(lit ''description'', JStr (lit ''a red dress'')), (lit ''referenceImage'', JNull)]) = Some (Some (JStr (lit ''a red dress'')), Some JNull) \<and>
   trim (lit ''a red dress'') \<noteq> [] \<and>
   constantProvider (Inr \<lparr>data = Some []\<rparr>)
     (generateParams (createPromptWithReference (lit ''a red dress'') (truthy (Some JNull)))) =
     Inr \<lparr>data = Some []\<rparr> \<and>
   (data \<lparr>data = Some []\<rparr> = None \<or> data \<lparr>data = Some []\<rparr> = Some []) \<and>
   fst (tryGenerate (constantProvider (Inr \<lparr>data = Some []\<rparr>))
          (createPromptWithReference (lit ''a red dress'') (truthy (Some JNull)))) =
     Inl (ErrorInstance (lit ''No images generated'')) \<and>
   fst (POST \<lparr>OPENAI_API_KEY = Some (lit ''sk-test'')\<rparr> (Inr (JObj [(lit ''description'', JStr (lit ''a red dress'')), (lit ''referenceImage'', JNull)])) (constantProvider (Inr \<lparr>data = Some []\<rparr>))) =
     jsonResponse 500 (ErrorBody (lit ''Error generating image with OpenAI''))"
proof -
  have h1: "OPENAI_API_KEY \<lparr>OPENAI_API_KEY = Some (lit ''sk-test'')\<rparr> = Some (lit ''sk-test'')" by simp
  have h2: "lit ''sk-test'' \<noteq> []" by (simp add: lit_def)
  have h3: "destructure (JObj [(lit ''description'', JStr (lit ''a red dress'')), (lit ''referenceImage'', JNull)]) = Some (Some (JStr (lit ''a red dress'')), Some JNull)"
    by (rule example_body)
  have h4: "trim (lit ''a red dress'') \<noteq> []" by (rule example_body)
  have h5: "constantProvider (Inr \<lparr>data = Some []\<rparr>)
     (generateParams (createPromptWithReference (lit ''a red dress'') (truthy (Some JNull)))) =
     Inr \<lparr>data = Some []\<rparr>" by (simp add: constantProvider_def)
  have h6: "data \<lparr>data = Some []\<rparr> = None \<or> data \<lparr>data = Some []\<rparr> = Some []" by simp
  from zero_results_general_error
         [of _ _ _ _ _ "constantProvider (Inr \<lparr>data = Some []\<rparr>)" "\<lparr>data = Some []\<rparr>",
           OF h1 h2 h3 h4 h5 h6] h1 h2 h3 h4 h5 h6
  show ?thesis by blast
qed

text \<open>
  C1 as stated fails: for a request with no images in the answer of the provider, the
  message that the caller sees is the general one, not "No images generated".
\<close>

theorem zero_results_message_counterexample:
  "fst (POST \<lparr>OPENAI_API_KEY = Some (lit ''sk-test'')\<rparr> (Inr (JObj [(lit ''description'', JStr (lit ''a red dress'')), (lit ''referenceImage'', JNull)])) (constantProvider (Inr \<lparr>data = Some []\<rparr>))) =
     jsonResponse 500 (ErrorBody (lit ''Error generating image with OpenAI'')) \<and>
   json_body (fst (POST \<lparr>OPENAI_API_KEY = Some (lit ''sk-test'')\<rparr> (Inr (JObj [(lit ''description'', JStr (lit ''a red dress'')), (lit ''referenceImage'', JNull)])) (constantProvider (Inr \<lparr>data = Some []\<rparr>)))) \<noteq>
     ErrorBody (lit ''No images generated'')"
proof -
  have "fst (POST \<lparr>OPENAI_API_KEY = Some (lit ''sk-test'')\<rparr> (Inr (JObj [(lit ''description'', JStr (lit ''a red dress'')), (lit ''referenceImage'', JNull)])) (constantProvider (Inr \<lparr>data = Some []\<rparr>))) =
     jsonResponse 500 (ErrorBody (lit ''Error generating image with OpenAI''))"
    by (simp add: POST_valid [where k = "lit ''sk-test''"] example_body lit_eq_Nil
        generateDesigns_empty [where response = "\<lparr>data = Some []\<rparr>"] constantProvider_def)
  then show ?thesis by (simp add: jsonResponse_def lit_inject)
qed


lemma truthy_cases:
  "truthy r \<longleftrightarrow> r \<noteq> None \<and> r \<noteq> Some JNull \<and> r \<noteq> Some (JBool False) \<and> r \<noteq> Some (JNum 0) \<and> r \<noteq> Some (JStr [])"
  by (cases r rule: truthy.cases) auto

text \<open>
  C2, as the code has it. For a request that reaches the prompt builder, the builder is
  called once, with the description and with the flag \<^verbatim>\<open>!!referenceImage\<close>: the
  truthiness of the field. The flag is false when the field is missing, null, false,
  zero or the empty string, and true for every other value, so for every string that is
  not empty.
\<close>

theorem reference_flag_is_truthiness:
  assumes "OPENAI_API_KEY e = Some k" and "k \<noteq> []"
    and "destructure body = Some (Some (JStr d), r)" and "trim d \<noteq> []"
  shows "filter isPromptBuilder (snd (POST e (Inr body) openai)) = [PromptBuilder d (truthy r)] \<and>
         (truthy r \<longleftrightarrow>
            r \<noteq> None \<and> r \<noteq> Some JNull \<and> r \<noteq> Some (JBool False) \<and> r \<noteq> Some (JNum 0) \<and>
            r \<noteq> Some (JStr []))"
proof
  show "filter isPromptBuilder (snd (POST e (Inr body) openai)) = [PromptBuilder d (truthy r)]"
    by (simp add: POST_valid [OF assms] generateDesigns_events)
  show "truthy r \<longleftrightarrow>
            r \<noteq> None \<and> r \<noteq> Some JNull \<and> r \<noteq> Some (JBool False) \<and> r \<noteq> Some (JNum 0) \<and>
            r \<noteq> Some (JStr [])"
    by (rule truthy_cases)
qed

text \<open>
  An instance: a data URL as the reference image gives the flag true.
\<close>

theorem reference_flag_is_truthiness_witness:
  "OPENAI_API_KEY \<lparr>OPENAI_API_KEY = Some (lit ''sk-test'')\<rparr> = Some (lit ''sk-test'') \<and> lit ''sk-test'' \<noteq> [] \<and>
   destructure (JObj [(lit ''description'', JStr (lit ''a red dress'')), (lit ''referenceImage'', JStr (lit ''data:image/png;base64,iVBOR''))]) = Some (Some (JStr (lit ''a red dress'')), Some (JStr (lit ''data:image/png;base64,iVBOR''))) \<and>
   trim (lit ''a red dress'') \<noteq> [] \<and>
   filter isPromptBuilder (snd (POST \<lparr>OPENAI_API_KEY = Some (lit ''sk-test'')\<rparr> (Inr (JObj [(lit ''description'', JStr (lit ''a red dress'')), (lit ''referenceImage'', JStr (lit ''data:image/png;base64,iVBOR''))])) (constantProvider (Inr \<lparr>data = Some [\<lparr>url = lit ''https://x/1.png'', revised_prompt = None\<rparr>]\<rparr>)))) = [PromptBuilder (lit ''a red dress'') True]"
proof -
  have h1: "OPENAI_API_KEY \<lparr>OPENAI_API_KEY = Some (lit ''sk-test'')\<rparr> = Some (lit ''sk-test'')" by simp
  have h2: "lit ''sk-test'' \<noteq> []" by (simp add: lit_def)
  have h3: "destructure (JObj [(lit ''description'', JStr (lit ''a red dress'')), (lit ''referenceImage'', JStr (lit ''data:image/png;base64,iVBOR''))]) = Some (Some (JStr (lit ''a red dress'')), Some (JStr (lit ''data:image/png;base64,iVBOR'')))"
    by (rule example_body)
  have h4: "trim (lit ''a red dress'') \<noteq> []" by (rule example_body)
  from reference_flag_is_truthiness [OF h1 h2 h3 h4, of "(constantProvider (Inr \<lparr>data = Some [\<lparr>url = lit ''https://x/1.png'', revised_prompt = None\<rparr>]\<rparr>))"] h1 h2 h3 h4
  show ?thesis by (simp add: lit_eq_Nil)
qed

text \<open>
  C2 as stated fails: the empty string is a reference image that is not null, and the
  flag that the builder receives for it is false.
\<close>

theorem empty_reference_image_counterexample:
  "destructure (JObj [(lit ''description'', JStr (lit ''a red dress'')), (lit ''referenceImage'', JStr [])]) = Some (Some (JStr (lit ''a red dress'')), Some (JStr [])) \<and>
   Some (JStr []) \<noteq> Some JNull \<and>
   filter isPromptBuilder (snd (POST \<lparr>OPENAI_API_KEY = Some (lit ''sk-test'')\<rparr> (Inr (JObj [(lit ''description'', JStr (lit ''a red dress'')), (lit ''referenceImage'', JStr [])])) (constantProvider (Inr \<lparr>data = Some [\<lparr>url = lit ''https://x/1.png'', revised_prompt = None\<rparr>]\<rparr>)))) = [PromptBuilder (lit ''a red dress'') False]"
  by (simp add: POST_valid [where k = "lit ''sk-test''"] example_body lit_eq_Nil lit_inject
      generateDesigns_events)

text \<open>
  C3, as the code has it. Take a request that reaches the provider and a provider that
  rejects the call. If the rejection is an instance of \<^verbatim>\<open>Error\<close> whose message
  contains "content policy" and does not contain "rate limit", the handler answers with
  status 400 and "Content policy violation. Please modify your request.". If it is an
  instance of \<^verbatim>\<open>Error\<close> whose message contains "rate limit", whether or not it
  also mentions the content policy, the handler answers with status 429 and
  "Rate limit exceeded. Please try again later.", since that test comes first. If it is
  any value that is not an instance of \<^verbatim>\<open>Error\<close>, the handler answers with status
  500 and "Error generating image with OpenAI".
\<close>

theorem content_policy_classification:
  assumes "OPENAI_API_KEY e = Some k" and "k \<noteq> []"
    and "destructure body = Some (Some (JStr d), r)" and "trim d \<noteq> []"
    and "openai (generateParams (createPromptWithReference d (truthy r))) = Inl x"
  shows "(\<forall>m. x = ErrorInstance m \<and> includesStr m (lit ''content policy'') \<and>
              \<not> includesStr m (lit ''rate limit'') \<longrightarrow>
            fst (POST e (Inr body) openai) = jsonResponse 400 (ErrorBody (lit ''Content policy violation. Please modify your request.''))) \<and>
         (\<forall>m. x = ErrorInstance m \<and> includesStr m (lit ''rate limit'') \<longrightarrow>
            fst (POST e (Inr body) openai) = jsonResponse 429 (ErrorBody (lit ''Rate limit exceeded. Please try again later.''))) \<and>
         (\<forall>v. x = OtherValue v \<longrightarrow>
            fst (POST e (Inr body) openai) = jsonResponse 500 (ErrorBody (lit ''Error generating image with OpenAI'')))"
proof -
  have "fst (POST e (Inr body) openai) = catchOpenaiError x"
    by (simp add: POST_valid [OF assms(1-4)] generateDesigns_rejected [of openai _ x, OF assms(5)])
  then show ?thesis by (simp add: catchOpenaiError_def)
qed

text \<open>
  Three instances: a rejection that mentions the content policy only, one that mentions
  the rate limit as well, and a plain object with a message about the content policy.
\<close>

theorem content_policy_classification_witness:
  "OPENAI_API_KEY \<lparr>OPENAI_API_KEY = Some (lit ''sk-test'')\<rparr> = Some (lit ''sk-test'') \<and> lit ''sk-test'' \<noteq> [] \<and>
   destructure (JObj [(lit ''description'', JStr (lit ''a red dress'')), (lit ''referenceImage'', JNull)]) = Some (Some (JStr (lit ''a red dress'')), Some JNull) \<and>
   trim (lit ''a red dress'') \<noteq> [] \<and>
   includesStr (lit ''blocked by our content policy'') (lit ''content policy'') \<and>
   \<not> includesStr (lit ''blocked by our content policy'') (lit ''rate limit'') \<and>
   fst (POST \<lparr>OPENAI_API_KEY = Some (lit ''sk-test'')\<rparr> (Inr (JObj [(lit ''description'', JStr (lit ''a red dress'')), (lit ''referenceImage'', JNull)])) (constantProvider (Inl (ErrorInstance (lit ''blocked by our content policy''))))) = jsonResponse 400 (ErrorBody (lit ''Content policy violation. Please modify your request.'')) \<and>
   includesStr (lit ''rate limit hit after content policy check'') (lit ''content policy'') \<and>
   includesStr (lit ''rate limit hit after content policy check'') (lit ''rate limit'') \<and>
   fst (POST \<lparr>OPENAI_API_KEY = Some (lit ''sk-test'')\<rparr> (Inr (JObj [(lit ''description'', JStr (lit ''a red dress'')), (lit ''referenceImage'', JNull)])) (constantProvider (Inl (ErrorInstance (lit ''rate limit hit after content policy check''))))) = jsonResponse 429 (ErrorBody (lit ''Rate limit exceeded. Please try again later.'')) \<and>
   fst (POST \<lparr>OPENAI_API_KEY = Some (lit ''sk-test'')\<rparr> (Inr (JObj [(lit ''description'', JStr (lit ''a red dress'')), (lit ''referenceImage'', JNull)])) (constantProvider (Inl (OtherValue (JObj [(lit ''message'', JStr (lit ''content policy''))]))))) = jsonResponse 500 (ErrorBody (lit ''Error generating image with OpenAI''))"
proof -
  have h1: "OPENAI_API_KEY \<lparr>OPENAI_API_KEY = Some (lit ''sk-test'')\<rparr> = Some (lit ''sk-test'')" by simp
  have h2: "lit ''sk-test'' \<noteq> []" by (simp add: lit_def)
  have h3: "destructure (JObj [(lit ''description'', JStr (lit ''a red dress'')), (lit ''referenceImage'', JNull)]) = Some (Some (JStr (lit ''a red dress'')), Some JNull)"
    by (rule example_body)
  have h4: "trim (lit ''a red dress'') \<noteq> []" by (rule example_body)
  have h5: "constantProvider (Inl x)
     (generateParams (createPromptWithReference (lit ''a red dress'') (truthy (Some JNull)))) =
     Inl x" for x
    by (simp add: constantProvider_def)
  have i1: "includesStr (lit ''blocked by our content policy'') (lit ''content policy'')"
    by (simp add: lit_def codeUnit_inject)
  have i2: "\<not> includesStr (lit ''blocked by our content policy'') (lit ''rate limit'')"
    by (simp add: lit_def codeUnit_inject)
  have i3: "includesStr (lit ''rate limit hit after content policy check'') (lit ''content policy'')"
    by (simp add: lit_def codeUnit_inject)
  have i4: "includesStr (lit ''rate limit hit after content policy check'') (lit ''rate limit'')"
    by (simp add: lit_def codeUnit_inject)
  note t = content_policy_classification [of _ _ _ _ _ "constantProvider (Inl x)" x for x,
      OF h1 h2 h3 h4 h5]
  have c1: "fst (POST \<lparr>OPENAI_API_KEY = Some (lit ''sk-test'')\<rparr> (Inr (JObj [(lit ''description'', JStr (lit ''a red dress'')), (lit ''referenceImage'', JNull)])) (constantProvider (Inl (ErrorInstance (lit ''blocked by our content policy''))))) = jsonResponse 400 (ErrorBody (lit ''Content policy violation. Please modify your request.''))"
    using t [of "(ErrorInstance (lit ''blocked by our content policy''))"] i1 i2 by blast
  have c2: "fst (POST \<lparr>OPENAI_API_KEY = Some (lit ''sk-test'')\<rparr> (Inr (JObj [(lit ''description'', JStr (lit ''a red dress'')), (lit ''referenceImage'', JNull)])) (constantProvider (Inl (ErrorInstance (lit ''rate limit hit after content policy check''))))) = jsonResponse 429 (ErrorBody (lit ''Rate limit exceeded. Please try again later.''))"
    using t [of "(ErrorInstance (lit ''rate limit hit after content policy check''))"] i4 by blast
  have c3: "fst (POST \<lparr>OPENAI_API_KEY = Some (lit ''sk-test'')\<rparr> (Inr (JObj [(lit ''description'', JStr (lit ''a red dress'')), (lit ''referenceImage'', JNull)])) (constantProvider (Inl (OtherValue (JObj [(lit ''message'', JStr (lit ''content policy''))]))))) = jsonResponse 500 (ErrorBody (lit ''Error generating image with OpenAI''))"
    using t [of "(OtherValue (JObj [(lit ''message'', JStr (lit ''content policy''))]))"] by blast
  from h1 h2 h3 h4 i1 i2 i3 i4 c1 c2 c3 show ?thesis by blast
qed

text \<open>
  C3 as stated fails twice. A message that contains "content policy" and also
  "rate limit" is answered with the 429 of the rate limit, which the handler looks for
  first. A rejection that is not an instance of \<^verbatim>\<open>Error\<close>, here a plain object with
  a message about the content policy, gets the general 500.
\<close>

theorem content_policy_counterexample:
  "includesStr (lit ''rate limit hit after content policy check'') (lit ''content policy'') \<and>
   fst (POST \<lparr>OPENAI_API_KEY = Some (lit ''sk-test'')\<rparr> (Inr (JObj [(lit ''description'', JStr (lit ''a red dress'')), (lit ''referenceImage'', JNull)]))
          (constantProvider
             (Inl (ErrorInstance (lit ''rate limit hit after content policy check''))))) =
     jsonResponse 429 (ErrorBody (lit ''Rate limit exceeded. Please try again later.'')) \<and>
   fst (POST \<lparr>OPENAI_API_KEY = Some (lit ''sk-test'')\<rparr> (Inr (JObj [(lit ''description'', JStr (lit ''a red dress'')), (lit ''referenceImage'', JNull)]))
          (constantProvider
             (Inl (OtherValue (JObj [(lit ''message'', JStr (lit ''content policy''))]))))) =
     jsonResponse 500 (ErrorBody (lit ''Error generating image with OpenAI''))"
proof (intro conjI)
  show "includesStr (lit ''rate limit hit after content policy check'') (lit ''content policy'')"
    by (simp add: lit_def codeUnit_inject)
  have rl: "includesStr (lit ''rate limit hit after content policy check'') (lit ''rate limit'')"
    by (simp add: lit_def codeUnit_inject)
  show "fst (POST \<lparr>OPENAI_API_KEY = Some (lit ''sk-test'')\<rparr> (Inr (JObj [(lit ''description'', JStr (lit ''a red dress'')), (lit ''referenceImage'', JNull)]))
          (constantProvider
             (Inl (ErrorInstance (lit ''rate limit hit after content policy check''))))) =
     jsonResponse 429 (ErrorBody (lit ''Rate limit exceeded. Please try again later.''))"
    using rl
    by (simp add: POST_valid [where k = "lit ''sk-test''"] example_body lit_eq_Nil lit_inject
        generateDesigns_rejected [where x = "ErrorInstance (lit ''rate limit hit after content policy check'')"]
        constantProvider_def catchOpenaiError_def)
  show "fst (POST \<lparr>OPENAI_API_KEY = Some (lit ''sk-test'')\<rparr> (Inr (JObj [(lit ''description'', JStr (lit ''a red dress'')), (lit ''referenceImage'', JNull)]))
          (constantProvider
             (Inl (OtherValue (JObj [(lit ''message'', JStr (lit ''content policy''))]))))) =
     jsonResponse 500 (ErrorBody (lit ''Error generating image with OpenAI''))"
    by (simp add: POST_valid [where k = "lit ''sk-test''"] example_body lit_eq_Nil lit_inject
        generateDesigns_rejected [where x = "OtherValue (JObj [(lit ''message'', JStr (lit ''content policy''))])"]
        constantProvider_def catchOpenaiError_def)
qed

text \<open>
  C4, as the code has it. With the credential there, every body that destructures,
  which is every JSON value but null, and whose description is missing (undefined or
  null), empty, or made of white space only is answered with status 400 and
  "Description is required"; the only effect is the reading of the body, so the
  provider is not called. For the body null the provider is not called either.
\<close>

theorem blank_description_rejected:
  assumes "OPENAI_API_KEY e = Some k" and "k \<noteq> []"
  shows "(\<forall>description r.
            destructure body = Some (description, r) \<and>
            (description = None \<or> description = Some JNull \<or> description = Some (JStr []) \<or>
             (\<exists>s. description = Some (JStr s) \<and> (\<forall>c \<in> set s. isWhiteSpace c))) \<longrightarrow>
            POST e (Inr body) openai =
              (jsonResponse 400 (ErrorBody (lit ''Description is required'')), [ReqJson]) \<and>
            \<not> providerInvoked (snd (POST e (Inr body) openai))) \<and>
         \<not> providerInvoked (snd (POST e (Inr JNull) openai))"
proof (intro conjI allI impI)
  fix description r
  assume a: "destructure body = Some (description, r) \<and>
            (description = None \<or> description = Some JNull \<or> description = Some (JStr []) \<or>
             (\<exists>s. description = Some (JStr s) \<and> (\<forall>c \<in> set s. isWhiteSpace c)))"
  then have "tryPOST (Inr body) openai =
          (Inr (jsonResponse 400 (ErrorBody (lit ''Description is required''))), [ReqJson])"
    using trim_empty_iff by (auto simp: tryPOST_def)
  then show post: "POST e (Inr body) openai =
           (jsonResponse 400 (ErrorBody (lit ''Description is required'')), [ReqJson])"
    by (simp add: POST_configured [OF assms])
  then show "\<not> providerInvoked (snd (POST e (Inr body) openai))"
    by (simp add: providerInvoked_def)
next
  show "\<not> providerInvoked (snd (POST e (Inr JNull) openai))"
    by (simp add: POST_configured [OF assms] tryPOST_def providerInvoked_def)
qed

text \<open>
  An instance: the description of three spaces, and the body null.
\<close>

theorem blank_description_rejected_witness:
  "OPENAI_API_KEY \<lparr>OPENAI_API_KEY = Some (lit ''sk-test'')\<rparr> = Some (lit ''sk-test'') \<and> lit ''sk-test'' \<noteq> [] \<and>
   destructure (JObj [(lit ''description'', JStr (lit ''   '')), (lit ''referenceImage'', JNull)]) = Some (Some (JStr (lit ''   '')), Some JNull) \<and>
   list_all isWhiteSpace (lit ''   '') \<and>
   POST \<lparr>OPENAI_API_KEY = Some (lit ''sk-test'')\<rparr> (Inr (JObj [(lit ''description'', JStr (lit ''   '')), (lit ''referenceImage'', JNull)])) (constantProvider (Inr \<lparr>data = Some [\<lparr>url = lit ''https://x/1.png'', revised_prompt = None\<rparr>]\<rparr>)) =
     (jsonResponse 400 (ErrorBody (lit ''Description is required'')), [ReqJson]) \<and>
   \<not> providerInvoked (snd (POST \<lparr>OPENAI_API_KEY = Some (lit ''sk-test'')\<rparr> (Inr (JObj [(lit ''description'', JStr (lit ''   '')), (lit ''referenceImage'', JNull)])) (constantProvider (Inr \<lparr>data = Some [\<lparr>url = lit ''https://x/1.png'', revised_prompt = None\<rparr>]\<rparr>)))) \<and>
   \<not> providerInvoked (snd (POST \<lparr>OPENAI_API_KEY = Some (lit ''sk-test'')\<rparr> (Inr JNull) (constantProvider (Inr \<lparr>data = Some [\<lparr>url = lit ''https://x/1.png'', revised_prompt = None\<rparr>]\<rparr>))))"
proof -
  have h1: "OPENAI_API_KEY \<lparr>OPENAI_API_KEY = Some (lit ''sk-test'')\<rparr> = Some (lit ''sk-test'')" by simp
  have h2: "lit ''sk-test'' \<noteq> []" by (simp add: lit_def)
  have h3: "destructure (JObj [(lit ''description'', JStr (lit ''   '')), (lit ''referenceImage'', JNull)]) = Some (Some (JStr (lit ''   '')), Some JNull)"
    by (simp add: lit_inject)
  have ws: "list_all isWhiteSpace (lit ''   '')"
    by (simp add: lit_def isWhiteSpace_def codeUnit_def)
  then have "\<forall>c \<in> set (lit ''   ''). isWhiteSpace c"
    by (simp only: list_all_iff)
  then have h4: "Some (JStr (lit ''   '')) = None \<or> Some (JStr (lit ''   '')) = Some JNull \<or>
      Some (JStr (lit ''   '')) = Some (JStr []) \<or>
      (\<exists>s. Some (JStr (lit ''   '')) = Some (JStr s) \<and> (\<forall>c \<in> set s. isWhiteSpace c))"
    by blast
  from blank_description_rejected [OF h1 h2, of "(JObj [(lit ''description'', JStr (lit ''   '')), (lit ''referenceImage'', JNull)])" "(constantProvider (Inr \<lparr>data = Some [\<lparr>url = lit ''https://x/1.png'', revised_prompt = None\<rparr>]\<rparr>))"] h1 h2 h3 h4 ws
  show ?thesis by blast
qed

text \<open>
  C4 as stated fails: the body null has no description, destructuring it raises a
  TypeError before the description is tested, and the outer \<^verbatim>\<open>catch\<close> answers with
  status 500 and "An unexpected error occurred", not with "Description is required".
\<close>

theorem null_body_counterexample:
  "destructure JNull = None \<and>
   POST \<lparr>OPENAI_API_KEY = Some (lit ''sk-test'')\<rparr> (Inr JNull) (constantProvider (Inr \<lparr>data = Some [\<lparr>url = lit ''https://x/1.png'', revised_prompt = None\<rparr>]\<rparr>)) =
     (jsonResponse 500 (ErrorBody (lit ''An unexpected error occurred'')),
      [ReqJson, ConsoleError ''Unexpected error:'']) \<and>
   fst (POST \<lparr>OPENAI_API_KEY = Some (lit ''sk-test'')\<rparr> (Inr JNull) (constantProvider (Inr \<lparr>data = Some [\<lparr>url = lit ''https://x/1.png'', revised_prompt = None\<rparr>]\<rparr>))) \<noteq>
     jsonResponse 400 (ErrorBody (lit ''Description is required''))"
  by (simp add: POST_configured [where k = "lit ''sk-test''"] lit_eq_Nil tryPOST_def jsonResponse_def)


text \<open>
  C5. Without the credential the handler answers with status 500 and
  "OpenAI API key not configured in Replit secrets" and does nothing but log: the answer
  is the same for every request, whether its body parses or not, and the body is not
  read, the prompt builder is not called and the provider is not called.
\<close>

theorem missing_credential_short_circuit:
  assumes "OPENAI_API_KEY e = None"
  shows "POST e req openai =
           (jsonResponse 500 (ErrorBody (lit ''OpenAI API key not configured in Replit secrets'')),
            [ConsoleError ''OpenAI API key is missing from environment variables'']) \<and>
         \<not> bodyRead (snd (POST e req openai)) \<and>
         \<not> promptBuilderInvoked (snd (POST e req openai)) \<and>
         \<not> providerInvoked (snd (POST e req openai))"
  using assms
  by (simp add: POST_def bodyRead_def promptBuilderInvoked_def providerInvoked_def)

text \<open>
  An instance: a body that does not parse and a body that does get the same answer.
\<close>

theorem missing_credential_short_circuit_witness:
  "OPENAI_API_KEY \<lparr>OPENAI_API_KEY = None\<rparr> = None \<and>
   POST \<lparr>OPENAI_API_KEY = None\<rparr> (Inl (ErrorInstance (lit ''Unexpected end of JSON input''))) (constantProvider (Inr \<lparr>data = Some [\<lparr>url = lit ''https://x/1.png'', revised_prompt = None\<rparr>]\<rparr>)) =
     (jsonResponse 500 (ErrorBody (lit ''OpenAI API key not configured in Replit secrets'')),
      [ConsoleError ''OpenAI API key is missing from environment variables'']) \<and>
   POST \<lparr>OPENAI_API_KEY = None\<rparr> (Inr (JObj [(lit ''description'', JStr (lit ''a red dress'')), (lit ''referenceImage'', JNull)])) (constantProvider (Inr \<lparr>data = Some [\<lparr>url = lit ''https://x/1.png'', revised_prompt = None\<rparr>]\<rparr>)) =
     (jsonResponse 500 (ErrorBody (lit ''OpenAI API key not configured in Replit secrets'')),
      [ConsoleError ''OpenAI API key is missing from environment variables''])"
proof -
  have h: "OPENAI_API_KEY \<lparr>OPENAI_API_KEY = None\<rparr> = None" by simp
  from missing_credential_short_circuit [OF h, of "Inl (ErrorInstance (lit ''Unexpected end of JSON input''))" "(constantProvider (Inr \<lparr>data = Some [\<lparr>url = lit ''https://x/1.png'', revised_prompt = None\<rparr>]\<rparr>))"]
    missing_credential_short_circuit [OF h, of "Inr (JObj [(lit ''description'', JStr (lit ''a red dress'')), (lit ''referenceImage'', JNull)])" "(constantProvider (Inr \<lparr>data = Some [\<lparr>url = lit ''https://x/1.png'', revised_prompt = None\<rparr>]\<rparr>))"] h
  show ?thesis by blast
qed

text \<open>
  C10. With the credential there, a body whose description is truthy and not a string
  makes \<^verbatim>\<open>description.trim()\<close> raise a TypeError; the outer \<^verbatim>\<open>catch\<close> logs it and
  answers with status 500 and "An unexpected error occurred". The answer is neither
  "Invalid request body" nor "Description is required", and the provider is not called.
\<close>

theorem non_string_description_unexpected:
  assumes "OPENAI_API_KEY e = Some k" and "k \<noteq> []"
    and "destructure body = Some (Some v, r)"
    and "truthy (Some v)"
    and "\<forall>s. v \<noteq> JStr s"
  shows "POST e (Inr body) openai =
           (jsonResponse 500 (ErrorBody (lit ''An unexpected error occurred'')),
            [ReqJson, ConsoleError ''Unexpected error:'']) \<and>
         \<not> providerInvoked (snd (POST e (Inr body) openai)) \<and>
         json_body (fst (POST e (Inr body) openai)) \<noteq> ErrorBody (lit ''Invalid request body'') \<and>
         json_body (fst (POST e (Inr body) openai)) \<noteq> ErrorBody (lit ''Description is required'')"
proof -
  from assms(3-5)
  have "tryPOST (Inr body) openai = (Inl TypeError, [ReqJson])"
    by (cases v) (simp_all add: tryPOST_def)
  then have "POST e (Inr body) openai =
           (jsonResponse 500 (ErrorBody (lit ''An unexpected error occurred'')),
            [ReqJson, ConsoleError ''Unexpected error:''])"
    by (simp add: POST_configured [OF assms(1,2)])
  then show ?thesis by (simp add: providerInvoked_def jsonResponse_def lit_inject)
qed

text \<open>
  An instance: the description is the number 42.
\<close>

theorem non_string_description_unexpected_witness:
  "OPENAI_API_KEY \<lparr>OPENAI_API_KEY = Some (lit ''sk-test'')\<rparr> = Some (lit ''sk-test'') \<and> lit ''sk-test'' \<noteq> [] \<and>
   destructure (JObj [(lit ''description'', JNum 42), (lit ''referenceImage'', JNull)]) = Some (Some (JNum 42), Some JNull) \<and>
   truthy (Some (JNum 42)) \<and> (\<forall>s. JNum 42 \<noteq> JStr s) \<and>
   POST \<lparr>OPENAI_API_KEY = Some (lit ''sk-test'')\<rparr> (Inr (JObj [(lit ''description'', JNum 42), (lit ''referenceImage'', JNull)])) (constantProvider (Inr \<lparr>data = Some [\<lparr>url = lit ''https://x/1.png'', revised_prompt = None\<rparr>]\<rparr>)) =
     (jsonResponse 500 (ErrorBody (lit ''An unexpected error occurred'')),
      [ReqJson, ConsoleError ''Unexpected error:'']) \<and>
   \<not> providerInvoked (snd (POST \<lparr>OPENAI_API_KEY = Some (lit ''sk-test'')\<rparr> (Inr (JObj [(lit ''description'', JNum 42), (lit ''referenceImage'', JNull)])) (constantProvider (Inr \<lparr>data = Some [\<lparr>url = lit ''https://x/1.png'', revised_prompt = None\<rparr>]\<rparr>))))"
proof -
  have h1: "OPENAI_API_KEY \<lparr>OPENAI_API_KEY = Some (lit ''sk-test'')\<rparr> = Some (lit ''sk-test'')" by simp
  have h2: "lit ''sk-test'' \<noteq> []" by (simp add: lit_def)
  have h3: "destructure (JObj [(lit ''description'', JNum 42), (lit ''referenceImage'', JNull)]) = Some (Some (JNum 42), Some JNull)"
    by (simp add: lit_inject)
  have h4: "truthy (Some (JNum 42))" by simp
  have h5: "\<forall>s. JNum 42 \<noteq> JStr s" by simp
  from non_string_description_unexpected [OF h1 h2 h3 h4 h5, of "(constantProvider (Inr \<lparr>data = Some [\<lparr>url = lit ''https://x/1.png'', revised_prompt = None\<rparr>]\<rparr>))"] h1 h2 h3 h4 h5
  show ?thesis by blast
qed

text \<open>
  C9, as the code has it. The builder is a function of the description and the flag and
  of nothing else, so equal arguments give the same string. The handler looks at the
  reference image only through its truthiness: two requests with the same description,
  whose reference images are both truthy or both falsy, give the same response and the
  same effects in the same order, hence the same prompt to the provider.
\<close>

theorem reference_image_only_through_truthiness:
  assumes "destructure body1 = Some (description, r1)"
    and "destructure body2 = Some (description, r2)"
    and "truthy r1 = truthy r2"
  shows "POST e (Inr body1) openai = POST e (Inr body2) openai \<and>
         sentPrompts (snd (POST e (Inr body1) openai)) =
           sentPrompts (snd (POST e (Inr body2) openai))"
proof -
  have "tryPOST (Inr body1) openai = tryPOST (Inr body2) openai"
    unfolding tryPOST_def sum.case assms(1) assms(2) option.case prod.case assms(3)
    by (rule refl)
  then have "POST e (Inr body1) openai = POST e (Inr body2) openai"
    by (simp add: POST_def)
  then show ?thesis by simp
qed

text \<open>
  An instance: two different data URLs as reference images.
\<close>

theorem reference_image_only_through_truthiness_witness:
  "destructure (JObj [(lit ''description'', JStr (lit ''a red dress'')), (lit ''referenceImage'', JStr (lit ''data:image/png;base64,iVBOR''))]) = Some (Some (JStr (lit ''a red dress'')), Some (JStr (lit ''data:image/png;base64,iVBOR''))) \<and>
   destructure (JObj [(lit ''description'', JStr (lit ''a red dress'')), (lit ''referenceImage'', JStr (lit ''data:image/jpeg;base64,/9j/4''))]) = Some (Some (JStr (lit ''a red dress'')), Some (JStr (lit ''data:image/jpeg;base64,/9j/4''))) \<and>
   truthy (Some (JStr (lit ''data:image/png;base64,iVBOR''))) =
     truthy (Some (JStr (lit ''data:image/jpeg;base64,/9j/4''))) \<and>
   POST \<lparr>OPENAI_API_KEY = Some (lit ''sk-test'')\<rparr> (Inr (JObj [(lit ''description'', JStr (lit ''a red dress'')), (lit ''referenceImage'', JStr (lit ''data:image/png;base64,iVBOR''))])) (constantProvider (Inr \<lparr>data = Some [\<lparr>url = lit ''https://x/1.png'', revised_prompt = None\<rparr>]\<rparr>)) = POST \<lparr>OPENAI_API_KEY = Some (lit ''sk-test'')\<rparr> (Inr (JObj [(lit ''description'', JStr (lit ''a red dress'')), (lit ''referenceImage'', JStr (lit ''data:image/jpeg;base64,/9j/4''))])) (constantProvider (Inr \<lparr>data = Some [\<lparr>url = lit ''https://x/1.png'', revised_prompt = None\<rparr>]\<rparr>)) \<and>
   sentPrompts (snd (POST \<lparr>OPENAI_API_KEY = Some (lit ''sk-test'')\<rparr> (Inr (JObj [(lit ''description'', JStr (lit ''a red dress'')), (lit ''referenceImage'', JStr (lit ''data:image/png;base64,iVBOR''))])) (constantProvider (Inr \<lparr>data = Some [\<lparr>url = lit ''https://x/1.png'', revised_prompt = None\<rparr>]\<rparr>)))) = sentPrompts (snd (POST \<lparr>OPENAI_API_KEY = Some (lit ''sk-test'')\<rparr> (Inr (JObj [(lit ''description'', JStr (lit ''a red dress'')), (lit ''referenceImage'', JStr (lit ''data:image/jpeg;base64,/9j/4''))])) (constantProvider (Inr \<lparr>data = Some [\<lparr>url = lit ''https://x/1.png'', revised_prompt = None\<rparr>]\<rparr>))))"
proof -
  have h1: "destructure (JObj [(lit ''description'', JStr (lit ''a red dress'')), (lit ''referenceImage'', JStr (lit ''data:image/png;base64,iVBOR''))]) = Some (Some (JStr (lit ''a red dress'')), Some (JStr (lit ''data:image/png;base64,iVBOR'')))"
    by (rule example_body)
  have h2: "destructure (JObj [(lit ''description'', JStr (lit ''a red dress'')), (lit ''referenceImage'', JStr (lit ''data:image/jpeg;base64,/9j/4''))]) = Some (Some (JStr (lit ''a red dress'')), Some (JStr (lit ''data:image/jpeg;base64,/9j/4'')))"
    by (rule example_body)
  have h3: "truthy (Some (JStr (lit ''data:image/png;base64,iVBOR''))) =
     truthy (Some (JStr (lit ''data:image/jpeg;base64,/9j/4'')))"
    by (simp add: lit_eq_Nil)
  from reference_image_only_through_truthiness [OF h1 h2 h3, of "\<lparr>OPENAI_API_KEY = Some (lit ''sk-test'')\<rparr>" "(constantProvider (Inr \<lparr>data = Some [\<lparr>url = lit ''https://x/1.png'', revised_prompt = None\<rparr>]\<rparr>))"] h1 h2 h3
  show ?thesis by blast
qed

text \<open>
  C9 as stated fails: the empty string and a data URL are two reference images that are
  not null, and with the same description the prompts that reach the provider differ.
\<close>

theorem reference_image_content_counterexample:
  "Some (JStr []) \<noteq> Some JNull \<and>
   Some (JStr (lit ''data:image/png;base64,iVBOR'')) \<noteq> Some JNull \<and>
   sentPrompts (snd (POST \<lparr>OPENAI_API_KEY = Some (lit ''sk-test'')\<rparr> (Inr (JObj [(lit ''description'', JStr (lit ''a red dress'')), (lit ''referenceImage'', JStr [])])) (constantProvider (Inr \<lparr>data = Some [\<lparr>url = lit ''https://x/1.png'', revised_prompt = None\<rparr>]\<rparr>)))) \<noteq> sentPrompts (snd (POST \<lparr>OPENAI_API_KEY = Some (lit ''sk-test'')\<rparr> (Inr (JObj [(lit ''description'', JStr (lit ''a red dress'')), (lit ''referenceImage'', JStr (lit ''data:image/png;base64,iVBOR''))])) (constantProvider (Inr \<lparr>data = Some [\<lparr>url = lit ''https://x/1.png'', revised_prompt = None\<rparr>]\<rparr>))))"
proof -
  have "referenceBlock \<noteq> []" by (simp add: referenceBlock_hd)
  then have "createPromptWithReference (lit ''a red dress'') False \<noteq>
        createPromptWithReference (lit ''a red dress'') True"
    by (simp add: prompt_shape)
  then show ?thesis
    by (simp add: POST_valid [where k = "lit ''sk-test''"] example_body lit_eq_Nil lit_inject
      generateDesigns_events)
qed

end
